theory Spec2Isabelle
  imports Complex_Main "HOL-Library.Word" "HOL-Library.Log_Nat" "HOL-Library.Signed_Division"
begin

section \<open>IEEE-754 binary32 arithmetic\<close>

text \<open>
  The C++ type \<^verbatim>\<open>float\<close> of cyColor.h is IEEE-754 binary32. A finite value is kept as
  sign, integer significand and exponent: \<open>Finite s m e\<close> stands for
  \<open>(-1)^s * m * 2^e\<close>. Every operation below returns the canonical form
  (\<open>2^23 \<le> m < 2^24\<close> and \<open>-149 \<le> e \<le> 104\<close> for normal numbers,
  \<open>m < 2^23\<close> and \<open>e = -149\<close> for subnormal numbers and the two zeros).
  The sign is \<open>True\<close> for negative values, so \<open>Finite True 0 (-149)\<close> is \<open>-0.0\<close>.
  All NaNs are one value: payloads are not observable through the operations of the header.
  Arithmetic rounds to nearest, ties to even, one rounding per operation.
\<close>

datatype float32 = Finite bool int int | Infinite bool | NaN

definition sval :: "bool \<Rightarrow> int \<Rightarrow> int" where
  "sval s m = (if s then - m else m)"

text \<open>\<open>M / 2^k\<close> for \<open>k > 0\<close>, rounded to the nearest integer, ties to the even one.\<close>

definition round_shift :: "int \<Rightarrow> nat \<Rightarrow> int" where
  "round_shift M k =
     (let q = M div 2 ^ k; r = M mod 2 ^ k; h = 2 ^ (k - 1)
      in if h < r \<or> (r = h \<and> odd q) then q + 1 else q)"

text \<open>The binary32 value nearest to \<open>(-1)^s * M * 2^E\<close> for \<open>M \<ge> 0\<close>; overflow gives infinity.\<close>

definition fround :: "bool \<Rightarrow> int \<Rightarrow> int \<Rightarrow> float32" where
  "fround s M E =
     (if M = 0 then Finite s 0 (- 149)
      else let e = max (E + bitlen M - 24) (- 149);
               m = (if e \<le> E then M * 2 ^ nat (E - e) else round_shift M (nat (e - E)));
               e' = (if m = 2 ^ 24 then e + 1 else e);
               m' = (if m = 2 ^ 24 then 2 ^ 23 else m)
           in if 104 < e' then Infinite s else Finite s m' e')"

text \<open>
  The binary32 value nearest to \<open>(-1)^s * (p / q) * 2^E\<close> for \<open>p \<ge> 0\<close> and \<open>q > 0\<close>:
  the quotient is taken with at least 26 bits and a sticky bit for the remainder.
\<close>

definition fround_quot :: "bool \<Rightarrow> int \<Rightarrow> int \<Rightarrow> int \<Rightarrow> float32" where
  "fround_quot s p q E =
     (let k = nat (max 0 (bitlen q + 26 - bitlen p));
          n = p * 2 ^ k
      in fround s (2 * (n div q) + (if n mod q = 0 then 0 else 1)) (E - int k - 1))"

text \<open>A decimal literal \<open>p / q\<close> with suffix \<^verbatim>\<open>f\<close>, and the conversion from \<^verbatim>\<open>int\<close>.\<close>

definition f_lit :: "int \<Rightarrow> int \<Rightarrow> float32" where
  "f_lit p q = fround_quot False p q 0"

definition f_of_int :: "int \<Rightarrow> float32" where
  "f_of_int i = fround (i < 0) \<bar>i\<bar> 0"

fun f_neg :: "float32 \<Rightarrow> float32" where
  "f_neg (Finite s m e) = Finite (\<not> s) m e"
| "f_neg (Infinite s) = Infinite (\<not> s)"
| "f_neg NaN = NaN"

fun f_add :: "float32 \<Rightarrow> float32 \<Rightarrow> float32" where
  "f_add (Finite s1 m1 e1) (Finite s2 m2 e2) =
     (let e = min e1 e2;
          S = sval s1 m1 * 2 ^ nat (e1 - e) + sval s2 m2 * 2 ^ nat (e2 - e)
      in if S = 0 then Finite (s1 \<and> s2) 0 (- 149) else fround (S < 0) \<bar>S\<bar> e)"
| "f_add (Finite s1 m1 e1) (Infinite s2) = Infinite s2"
| "f_add (Infinite s1) (Finite s2 m2 e2) = Infinite s1"
| "f_add (Infinite s1) (Infinite s2) = (if s1 = s2 then Infinite s1 else NaN)"
| "f_add NaN y = NaN"
| "f_add x NaN = NaN"

definition f_sub :: "float32 \<Rightarrow> float32 \<Rightarrow> float32" where
  "f_sub x y = f_add x (f_neg y)"

fun f_mul :: "float32 \<Rightarrow> float32 \<Rightarrow> float32" where
  "f_mul (Finite s1 m1 e1) (Finite s2 m2 e2) = fround (s1 \<noteq> s2) (m1 * m2) (e1 + e2)"
| "f_mul (Finite s1 m1 e1) (Infinite s2) = (if m1 = 0 then NaN else Infinite (s1 \<noteq> s2))"
| "f_mul (Infinite s1) (Finite s2 m2 e2) = (if m2 = 0 then NaN else Infinite (s1 \<noteq> s2))"
| "f_mul (Infinite s1) (Infinite s2) = Infinite (s1 \<noteq> s2)"
| "f_mul NaN y = NaN"
| "f_mul x NaN = NaN"

fun f_div :: "float32 \<Rightarrow> float32 \<Rightarrow> float32" where
  "f_div (Finite s1 m1 e1) (Finite s2 m2 e2) =
     (if m2 = 0 then (if m1 = 0 then NaN else Infinite (s1 \<noteq> s2))
      else fround_quot (s1 \<noteq> s2) m1 m2 (e1 - e2))"
| "f_div (Finite s1 m1 e1) (Infinite s2) = Finite (s1 \<noteq> s2) 0 (- 149)"
| "f_div (Infinite s1) (Finite s2 m2 e2) = Infinite (s1 \<noteq> s2)"
| "f_div (Infinite s1) (Infinite s2) = NaN"
| "f_div NaN y = NaN"
| "f_div x NaN = NaN"

text \<open>
  The four mutually exclusive relations of an IEEE-754 comparison; the C++ operators
  \<^verbatim>\<open><\<close>, \<^verbatim>\<open>>\<close>, \<^verbatim>\<open><=\<close>, \<^verbatim>\<open>>=\<close>, \<^verbatim>\<open>==\<close> and \<^verbatim>\<open>!=\<close> are read off it.
\<close>

datatype relation = Less | Equal | Greater | Unordered

definition int_rel :: "int \<Rightarrow> int \<Rightarrow> relation" where
  "int_rel x y = (if x < y then Less else if x = y then Equal else Greater)"

fun f_compare :: "float32 \<Rightarrow> float32 \<Rightarrow> relation" where
  "f_compare (Finite s1 m1 e1) (Finite s2 m2 e2) =
     (let e = min e1 e2
      in int_rel (sval s1 m1 * 2 ^ nat (e1 - e)) (sval s2 m2 * 2 ^ nat (e2 - e)))"
| "f_compare (Finite s1 m1 e1) (Infinite s2) = (if s2 then Greater else Less)"
| "f_compare (Infinite s1) (Finite s2 m2 e2) = (if s1 then Less else Greater)"
| "f_compare (Infinite s1) (Infinite s2) =
     (if s1 = s2 then Equal else if s1 then Less else Greater)"
| "f_compare NaN y = Unordered"
| "f_compare x NaN = Unordered"

definition f_lt :: "float32 \<Rightarrow> float32 \<Rightarrow> bool" where
  "f_lt x y = (f_compare x y = Less)"

definition f_gt :: "float32 \<Rightarrow> float32 \<Rightarrow> bool" where
  "f_gt x y = (f_compare x y = Greater)"

definition f_le :: "float32 \<Rightarrow> float32 \<Rightarrow> bool" where
  "f_le x y = (f_compare x y = Less \<or> f_compare x y = Equal)"

definition f_ge :: "float32 \<Rightarrow> float32 \<Rightarrow> bool" where
  "f_ge x y = (f_compare x y = Greater \<or> f_compare x y = Equal)"

definition f_eq :: "float32 \<Rightarrow> float32 \<Rightarrow> bool" where
  "f_eq x y = (f_compare x y = Equal)"

definition f_ne :: "float32 \<Rightarrow> float32 \<Rightarrow> bool" where
  "f_ne x y = (f_compare x y \<noteq> Equal)"

fun is_nan :: "float32 \<Rightarrow> bool" where
  "is_nan NaN = True"
| "is_nan _ = False"

fun is_finite :: "float32 \<Rightarrow> bool" where
  "is_finite (Finite s m e) = True"
| "is_finite _ = False"

text \<open>
  The conversion \<^verbatim>\<open>int(x)\<close> of a \<^verbatim>\<open>float\<close> to the 32-bit \<^verbatim>\<open>int\<close>: the value is truncated
  towards zero, and the behaviour is undefined (\<open>None\<close>) when the truncated value is not
  representable in \<^verbatim>\<open>int\<close>, which covers the infinities and NaN.
\<close>

fun f_to_int :: "float32 \<Rightarrow> int option" where
  "f_to_int (Finite s m e) =
     (let t = sval s (if 0 \<le> e then m * 2 ^ nat e else m div 2 ^ nat (- e))
      in if - (2 ^ 31) \<le> t \<and> t < 2 ^ 31 then Some t else None)"
| "f_to_int (Infinite s) = None"
| "f_to_int NaN = None"


section \<open>The colour classes of cyColor.h\<close>

text \<open>
  Each class is a plain aggregate of its components in declaration order:
  \<open>r g b\<close> for \<open>Color\<close> and \<open>Color24\<close>, \<open>r g b a\<close> for \<open>ColorA\<close> and \<open>Color32\<close>.
  \<^verbatim>\<open>uint8_t\<close> is \<open>8 word\<close>. The C++ \<^verbatim>\<open>int\<close> is read as a mathematical integer: the only
  \<^verbatim>\<open>int\<close> arithmetic of the header adds three bytes and one, which stays below \<open>767\<close>,
  and \<open>f_to_int\<close> only returns values of the 32-bit range. Methods that assign to
  \<^verbatim>\<open>*this\<close> return the updated object.
\<close>

datatype Color = Color float32 float32 float32
datatype ColorA = ColorA float32 float32 float32 float32
datatype Color24 = Color24 "8 word" "8 word" "8 word"
datatype Color32 = Color32 "8 word" "8 word" "8 word" "8 word"

text \<open>
  Modelled from the spec: \<^verbatim>\<open>cy::Max\<close> and \<^verbatim>\<open>cy::Min\<close> are declared in cyCore.h, which is not
  part of the sources at hand. The spec calls them the elementwise max and min against a
  bound; they are taken as the usual selection of one of the two arguments by a comparison.
\<close>

definition cyMax :: "float32 \<Rightarrow> float32 \<Rightarrow> float32" where
  "cyMax v1 v2 = (if f_ge v1 v2 then v1 else v2)"

definition cyMin :: "float32 \<Rightarrow> float32 \<Rightarrow> float32" where
  "cyMin v1 v2 = (if f_le v1 v2 then v1 else v2)"

subsection \<open>Color\<close>

fun Color_neg :: "Color \<Rightarrow> Color" where
  "Color_neg (Color r g b) = Color (f_neg r) (f_neg g) (f_neg b)"

fun Color_add_f :: "Color \<Rightarrow> float32 \<Rightarrow> Color" where
  "Color_add_f (Color r g b) n = Color (f_add r n) (f_add g n) (f_add b n)"

fun Color_sub_f :: "Color \<Rightarrow> float32 \<Rightarrow> Color" where
  "Color_sub_f (Color r g b) n = Color (f_sub r n) (f_sub g n) (f_sub b n)"

fun Color_mul_f :: "Color \<Rightarrow> float32 \<Rightarrow> Color" where
  "Color_mul_f (Color r g b) n = Color (f_mul r n) (f_mul g n) (f_mul b n)"

fun Color_div_f :: "Color \<Rightarrow> float32 \<Rightarrow> Color" where
  "Color_div_f (Color r g b) n = Color (f_div r n) (f_div g n) (f_div b n)"

text \<open>The friend operators with the \<^verbatim>\<open>float\<close> on the left (lines 55 to 57).\<close>

definition f_add_Color :: "float32 \<Rightarrow> Color \<Rightarrow> Color" where
  "f_add_Color v c = Color_add_f c v"

definition f_sub_Color :: "float32 \<Rightarrow> Color \<Rightarrow> Color" where
  "f_sub_Color v c = Color_neg (Color_sub_f c v)"

definition f_mul_Color :: "float32 \<Rightarrow> Color \<Rightarrow> Color" where
  "f_mul_Color v c = Color_mul_f c v"

fun Color_eq :: "Color \<Rightarrow> Color \<Rightarrow> bool" where
  "Color_eq (Color r g b) (Color cr cg cb) = (f_eq cr r \<and> f_eq cg g \<and> f_eq cb b)"

fun Color_ne :: "Color \<Rightarrow> Color \<Rightarrow> bool" where
  "Color_ne (Color r g b) (Color cr cg cb) = (f_ne cr r \<or> f_ne cg g \<or> f_ne cb b)"

text \<open>
  \<^verbatim>\<open>powf\<close> belongs to the C library and IEEE-754 does not fix its rounding, so the two
  transfer functions take it as the parameter \<open>pw\<close>.
\<close>

fun Color_Linear2sRGB :: "(float32 \<Rightarrow> float32 \<Rightarrow> float32) \<Rightarrow> Color \<Rightarrow> Color" where
  "Color_Linear2sRGB pw (Color r g b) =
     (let f = (\<lambda>cl. if f_lt cl (f_lit 31308 10000000) then f_mul cl (f_lit 1292 100)
                     else f_sub (f_mul (pw cl (f_lit 41666 100000)) (f_lit 1055 1000))
                            (f_lit 55 1000))
      in Color (f r) (f g) (f b))"

fun Color_sRGB2Linear :: "(float32 \<Rightarrow> float32 \<Rightarrow> float32) \<Rightarrow> Color \<Rightarrow> Color" where
  "Color_sRGB2Linear pw (Color r g b) =
     (let f = (\<lambda>cs. if f_le cs (f_lit 4045 100000) then f_div cs (f_lit 1292 100)
                     else pw (f_div (f_add cs (f_lit 55 1000)) (f_lit 1055 1000))
                            (f_lit 24 10))
      in Color (f r) (f g) (f b))"

subsection \<open>ColorA\<close>

text \<open>The constructor \<^verbatim>\<open>ColorA(Color const &c, float _a)\<close>.\<close>

fun ColorA_of_Color :: "Color \<Rightarrow> float32 \<Rightarrow> ColorA" where
  "ColorA_of_Color (Color r g b) a = ColorA r g b a"

fun ColorA_Sum :: "ColorA \<Rightarrow> float32" where
  "ColorA_Sum (ColorA r g b a) = f_add (f_add r g) b"

definition ColorA_Gray :: "ColorA \<Rightarrow> float32" where
  "ColorA_Gray c = f_div (ColorA_Sum c) (f_lit 3 1)"

fun ColorA_Min :: "ColorA \<Rightarrow> float32" where
  "ColorA_Min (ColorA r g b a) =
     (let mrg = (if f_lt r g then r else g); mba = (if f_lt b a then b else a)
      in if f_lt mrg mba then mrg else mba)"

fun ColorA_Max :: "ColorA \<Rightarrow> float32" where
  "ColorA_Max (ColorA r g b a) =
     (let mrg = (if f_gt r g then r else g); mba = (if f_gt b a then b else a)
      in if f_gt mrg mba then mrg else mba)"

fun ColorA_Linear2sRGB :: "(float32 \<Rightarrow> float32 \<Rightarrow> float32) \<Rightarrow> ColorA \<Rightarrow> ColorA" where
  "ColorA_Linear2sRGB pw (ColorA r g b a) =
     ColorA_of_Color (Color_Linear2sRGB pw (Color r g b)) a"

fun ColorA_sRGB2Linear :: "(float32 \<Rightarrow> float32 \<Rightarrow> float32) \<Rightarrow> ColorA \<Rightarrow> ColorA" where
  "ColorA_sRGB2Linear pw (ColorA r g b a) =
     ColorA_of_Color (Color_sRGB2Linear pw (Color r g b)) a"

fun ColorA_Apply :: "(float32 \<Rightarrow> float32) \<Rightarrow> ColorA \<Rightarrow> ColorA" where
  "ColorA_Apply func (ColorA r g b a) = ColorA (func r) (func g) (func b) a"

definition ColorA_ClampMin :: "float32 \<Rightarrow> ColorA \<Rightarrow> ColorA" where
  "ColorA_ClampMin limitMin c = ColorA_Apply (\<lambda>v. cyMax v limitMin) c"

definition ColorA_ClampMax :: "float32 \<Rightarrow> ColorA \<Rightarrow> ColorA" where
  "ColorA_ClampMax limitMax c = ColorA_Apply (\<lambda>v. cyMin v limitMax) c"

definition ColorA_Clamp :: "float32 \<Rightarrow> float32 \<Rightarrow> ColorA \<Rightarrow> ColorA" where
  "ColorA_Clamp limitMin limitMax c = ColorA_ClampMax limitMax (ColorA_ClampMin limitMin c)"

fun ColorA_neg :: "ColorA \<Rightarrow> ColorA" where
  "ColorA_neg (ColorA r g b a) = ColorA (f_neg r) (f_neg g) (f_neg b) (f_neg a)"

fun ColorA_add_f :: "ColorA \<Rightarrow> float32 \<Rightarrow> ColorA" where
  "ColorA_add_f (ColorA r g b a) n = ColorA (f_add r n) (f_add g n) (f_add b n) (f_add a n)"

fun ColorA_sub_f :: "ColorA \<Rightarrow> float32 \<Rightarrow> ColorA" where
  "ColorA_sub_f (ColorA r g b a) n = ColorA (f_sub r n) (f_sub g n) (f_sub b n) (f_sub a n)"

fun ColorA_mul_f :: "ColorA \<Rightarrow> float32 \<Rightarrow> ColorA" where
  "ColorA_mul_f (ColorA r g b a) n = ColorA (f_mul r n) (f_mul g n) (f_mul b n) (f_mul a n)"

fun ColorA_div_f :: "ColorA \<Rightarrow> float32 \<Rightarrow> ColorA" where
  "ColorA_div_f (ColorA r g b a) n = ColorA (f_div r n) (f_div g n) (f_div b n) (f_div a n)"

text \<open>The friend operators with the \<^verbatim>\<open>float\<close> on the left (lines 151 to 153).\<close>

definition f_add_ColorA :: "float32 \<Rightarrow> ColorA \<Rightarrow> ColorA" where
  "f_add_ColorA v c = ColorA_add_f c v"

definition f_sub_ColorA :: "float32 \<Rightarrow> ColorA \<Rightarrow> ColorA" where
  "f_sub_ColorA v c = ColorA_neg (ColorA_sub_f c v)"

definition f_mul_ColorA :: "float32 \<Rightarrow> ColorA \<Rightarrow> ColorA" where
  "f_mul_ColorA v c = ColorA_mul_f c v"

fun ColorA_eq :: "ColorA \<Rightarrow> ColorA \<Rightarrow> bool" where
  "ColorA_eq (ColorA r g b a) (ColorA cr cg cb ca) =
     (f_eq cr r \<and> f_eq cg g \<and> f_eq cb b \<and> f_eq ca a)"

fun ColorA_ne :: "ColorA \<Rightarrow> ColorA \<Rightarrow> bool" where
  "ColorA_ne (ColorA r g b a) (ColorA cr cg cb ca) =
     (f_ne cr r \<or> f_ne cg g \<or> f_ne cb b \<or> f_ne ca a)"

text \<open>
  The operators a \<^verbatim>\<open>float\<close> left operand can take with a colour on the right. Overload
  resolution finds the three friend functions of each class and nothing for \<^verbatim>\<open>/\<close>: no
  \<^verbatim>\<open>operator/\<close> with a \<^verbatim>\<open>float\<close> first parameter is declared, and the constructors from a
  single \<^verbatim>\<open>float\<close> are \<^verbatim>\<open>explicit\<close>, so the member \<^verbatim>\<open>operator/\<close> is not reachable either.
\<close>

datatype arith_op = Plus | Minus | Times | Divide

fun float_Color_operator :: "arith_op \<Rightarrow> (float32 \<Rightarrow> Color \<Rightarrow> Color) option" where
  "float_Color_operator Plus = Some f_add_Color"
| "float_Color_operator Minus = Some f_sub_Color"
| "float_Color_operator Times = Some f_mul_Color"
| "float_Color_operator Divide = None"

fun float_ColorA_operator :: "arith_op \<Rightarrow> (float32 \<Rightarrow> ColorA \<Rightarrow> ColorA) option" where
  "float_ColorA_operator Plus = Some f_add_ColorA"
| "float_ColorA_operator Minus = Some f_sub_ColorA"
| "float_ColorA_operator Times = Some f_mul_ColorA"
| "float_ColorA_operator Divide = None"

subsection \<open>Color24\<close>

definition Color24_ClampInt :: "int \<Rightarrow> 8 word" where
  "Color24_ClampInt v = (if v < 0 then 0 else if 255 < v then 255 else word_of_int v)"

definition Color24_FloatToByte :: "float32 \<Rightarrow> 8 word option" where
  "Color24_FloatToByte r =
     map_option Color24_ClampInt (f_to_int (f_add (f_mul r (f_of_int 255)) (f_lit 1 2)))"

fun Color24_of_Color :: "Color \<Rightarrow> Color24 option" where
  "Color24_of_Color (Color cr cg cb) =
     (case Color24_FloatToByte cr of None \<Rightarrow> None | Some r \<Rightarrow>
      case Color24_FloatToByte cg of None \<Rightarrow> None | Some g \<Rightarrow>
      case Color24_FloatToByte cb of None \<Rightarrow> None | Some b \<Rightarrow> Some (Color24 r g b))"

fun Color24_of_ColorA :: "ColorA \<Rightarrow> Color24 option" where
  "Color24_of_ColorA (ColorA cr cg cb ca) =
     (case Color24_FloatToByte cr of None \<Rightarrow> None | Some r \<Rightarrow>
      case Color24_FloatToByte cg of None \<Rightarrow> None | Some g \<Rightarrow>
      case Color24_FloatToByte cb of None \<Rightarrow> None | Some b \<Rightarrow> Some (Color24 r g b))"

fun Color24_of_Color32 :: "Color32 \<Rightarrow> Color24" where
  "Color24_of_Color32 (Color32 r g b a) = Color24 r g b"

fun Color24_ToColor :: "Color24 \<Rightarrow> Color" where
  "Color24_ToColor (Color24 r g b) =
     Color (f_div (f_of_int (uint r)) (f_lit 255 1)) (f_div (f_of_int (uint g)) (f_lit 255 1))
       (f_div (f_of_int (uint b)) (f_lit 255 1))"

fun Color24_ToColorA :: "Color24 \<Rightarrow> ColorA" where
  "Color24_ToColorA (Color24 r g b) =
     ColorA (f_div (f_of_int (uint r)) (f_lit 255 1)) (f_div (f_of_int (uint g)) (f_lit 255 1))
       (f_div (f_of_int (uint b)) (f_lit 255 1)) (f_lit 1 1)"

fun Color24_Sum :: "Color24 \<Rightarrow> int" where
  "Color24_Sum (Color24 r g b) = uint r + uint g + uint b"

definition Color24_Gray :: "Color24 \<Rightarrow> 8 word" where
  "Color24_Gray c = word_of_int ((Color24_Sum c + 1) sdiv 3)"

fun Color24_eq :: "Color24 \<Rightarrow> Color24 \<Rightarrow> bool" where
  "Color24_eq (Color24 r g b) (Color24 cr cg cb) = (cr = r \<and> cg = g \<and> cb = b)"

fun Color24_ne :: "Color24 \<Rightarrow> Color24 \<Rightarrow> bool" where
  "Color24_ne (Color24 r g b) (Color24 cr cg cb) = (cr \<noteq> r \<or> cg \<noteq> g \<or> cb \<noteq> b)"

subsection \<open>Color32\<close>

definition Color32_ClampInt :: "int \<Rightarrow> 8 word" where
  "Color32_ClampInt v = (if v < 0 then 0 else if 255 < v then 255 else word_of_int v)"

definition Color32_FloatToByte :: "float32 \<Rightarrow> 8 word option" where
  "Color32_FloatToByte r =
     map_option Color32_ClampInt (f_to_int (f_add (f_mul r (f_of_int 255)) (f_lit 1 2)))"

fun Color32_of_Color :: "Color \<Rightarrow> float32 \<Rightarrow> Color32 option" where
  "Color32_of_Color (Color cr cg cb) ca =
     (case Color32_FloatToByte cr of None \<Rightarrow> None | Some r \<Rightarrow>
      case Color32_FloatToByte cg of None \<Rightarrow> None | Some g \<Rightarrow>
      case Color32_FloatToByte cb of None \<Rightarrow> None | Some b \<Rightarrow>
      case Color32_FloatToByte ca of None \<Rightarrow> None | Some a \<Rightarrow> Some (Color32 r g b a))"

fun Color32_of_ColorA :: "ColorA \<Rightarrow> Color32 option" where
  "Color32_of_ColorA (ColorA cr cg cb ca) =
     (case Color32_FloatToByte cr of None \<Rightarrow> None | Some r \<Rightarrow>
      case Color32_FloatToByte cg of None \<Rightarrow> None | Some g \<Rightarrow>
      case Color32_FloatToByte cb of None \<Rightarrow> None | Some b \<Rightarrow>
      case Color32_FloatToByte ca of None \<Rightarrow> None | Some a \<Rightarrow> Some (Color32 r g b a))"

fun Color32_of_Color24 :: "Color24 \<Rightarrow> 8 word \<Rightarrow> Color32" where
  "Color32_of_Color24 (Color24 r g b) a = Color32 r g b a"

fun Color32_ToColor :: "Color32 \<Rightarrow> Color" where
  "Color32_ToColor (Color32 r g b a) =
     Color (f_div (f_of_int (uint r)) (f_lit 255 1)) (f_div (f_of_int (uint g)) (f_lit 255 1))
       (f_div (f_of_int (uint b)) (f_lit 255 1))"

fun Color32_ToColorA :: "Color32 \<Rightarrow> ColorA" where
  "Color32_ToColorA (Color32 r g b a) =
     ColorA (f_div (f_of_int (uint r)) (f_lit 255 1)) (f_div (f_of_int (uint g)) (f_lit 255 1))
       (f_div (f_of_int (uint b)) (f_lit 255 1)) (f_div (f_of_int (uint a)) (f_lit 255 1))"

fun Color32_Sum :: "Color32 \<Rightarrow> int" where
  "Color32_Sum (Color32 r g b a) = uint r + uint g + uint b"

definition Color32_Gray :: "Color32 \<Rightarrow> 8 word" where
  "Color32_Gray c = word_of_int ((Color32_Sum c + 1) sdiv 3)"

fun Color32_eq :: "Color32 \<Rightarrow> Color32 \<Rightarrow> bool" where
  "Color32_eq (Color32 r g b a) (Color32 cr cg cb ca) = (cr = r \<and> cg = g \<and> cb = b \<and> ca = a)"

fun Color32_ne :: "Color32 \<Rightarrow> Color32 \<Rightarrow> bool" where
  "Color32_ne (Color32 r g b a) (Color32 cr cg cb ca) =
     (cr \<noteq> r \<or> cg \<noteq> g \<or> cb \<noteq> b \<or> ca \<noteq> a)"

text \<open>
  Modelled from the spec: \<^verbatim>\<open>cy::Max\<close> and \<^verbatim>\<open>cy::Min\<close> of cyCore.h at the type \<^verbatim>\<open>uint8_t\<close>,
  again the selection of one of the two arguments by a comparison.
\<close>

definition cyMax_byte :: "8 word \<Rightarrow> 8 word \<Rightarrow> 8 word" where
  "cyMax_byte v1 v2 = (if v2 \<le> v1 then v1 else v2)"

definition cyMin_byte :: "8 word \<Rightarrow> 8 word \<Rightarrow> 8 word" where
  "cyMin_byte v1 v2 = (if v1 \<le> v2 then v1 else v2)"

fun Color32_ClampMin :: "8 word \<Rightarrow> Color32 \<Rightarrow> Color32" where
  "Color32_ClampMin limitMin (Color32 r g b a) =
     Color32 (cyMax_byte r limitMin) (cyMax_byte g limitMin) (cyMax_byte b limitMin)
       (cyMax_byte a limitMin)"

fun Color32_ClampMax :: "8 word \<Rightarrow> Color32 \<Rightarrow> Color32" where
  "Color32_ClampMax limitMax (Color32 r g b a) =
     Color32 (cyMin_byte r limitMax) (cyMin_byte g limitMax) (cyMin_byte b limitMax)
       (cyMin_byte a limitMax)"

definition Color32_Clamp :: "8 word \<Rightarrow> 8 word \<Rightarrow> Color32 \<Rightarrow> Color32" where
  "Color32_Clamp limitMin limitMax c = Color32_ClampMax limitMax (Color32_ClampMin limitMin c)"


section \<open>Notions used to state the properties\<close>

text \<open>
  The real number a finite \<open>float32\<close> stands for, and the position of a value among
  \<open>-\<infinity>\<close>, the finite numbers and \<open>+\<infinity>\<close>. Both serve the proofs about comparisons only.
\<close>

definition f_val :: "float32 \<Rightarrow> real" where
  "f_val x = (case x of Finite s m e \<Rightarrow> real_of_int (sval s m) * 2 powi e | _ \<Rightarrow> 0)"

definition f_rank :: "float32 \<Rightarrow> int" where
  "f_rank x = (case x of Finite s m e \<Rightarrow> 0 | Infinite s \<Rightarrow> (if s then - 1 else 1) | NaN \<Rightarrow> 0)"

text \<open>A finite component within the closed interval from \<open>0.0f\<close> to \<open>1.0f\<close>.\<close>

definition unit_float :: "float32 \<Rightarrow> bool" where
  "unit_float x = (is_finite x \<and> f_le (f_lit 0 1) x \<and> f_le x (f_lit 1 1))"

fun Color_all :: "(float32 \<Rightarrow> bool) \<Rightarrow> Color \<Rightarrow> bool" where
  "Color_all P (Color r g b) = (P r \<and> P g \<and> P b)"

fun ColorA_all :: "(float32 \<Rightarrow> bool) \<Rightarrow> ColorA \<Rightarrow> bool" where
  "ColorA_all P (ColorA r g b a) = (P r \<and> P g \<and> P b \<and> P a)"

text \<open>
  The two transfer functions of one channel as the specification words them, with the
  constants read as \<^verbatim>\<open>float\<close> literals.
\<close>

definition spec_Linear2sRGB_channel ::
  "(float32 \<Rightarrow> float32 \<Rightarrow> float32) \<Rightarrow> float32 \<Rightarrow> float32" where
  "spec_Linear2sRGB_channel pw c =
     (if f_lt c (f_lit 31308 10000000) then f_mul c (f_lit 1292 100)
      else f_sub (f_mul (pw c (f_lit 41666 100000)) (f_lit 1055 1000)) (f_lit 55 1000))"

definition spec_sRGB2Linear_channel ::
  "(float32 \<Rightarrow> float32 \<Rightarrow> float32) \<Rightarrow> float32 \<Rightarrow> float32" where
  "spec_sRGB2Linear_channel pw c =
     (if f_le c (f_lit 4045 100000) then f_div c (f_lit 1292 100)
      else pw (f_div (f_add c (f_lit 55 1000)) (f_lit 1055 1000)) (f_lit 24 10))"

text \<open>The clamp of one value the specification describes: max against the lower bound, then min against the upper.\<close>

definition spec_clamp :: "float32 \<Rightarrow> float32 \<Rightarrow> float32 \<Rightarrow> float32" where
  "spec_clamp limitMin limitMax v = cyMin (cyMax v limitMin) limitMax"


section \<open>Sample values of the arithmetic\<close>

text \<open>
  Known binary32 results: \<open>0.1f\<close> is \<open>0x3DCCCCCD\<close>, \<open>1.0f/3.0f\<close> is \<open>0x3EAAAAAB\<close>,
  \<open>0.1f+0.2f\<close> is \<open>0x3E99999A\<close>, \<open>1.0f/255.0f\<close> is \<open>0x3B808081\<close>; \<open>2^24+1\<close> is a tie and
  goes to the even neighbour; the largest finite value doubled overflows; half of the
  smallest subnormal number is a tie and goes to zero.
\<close>

lemma binary32_samples:
  "f_lit 1 10 = Finite False 13421773 (- 27)"
  "f_div (f_lit 1 1) (f_lit 3 1) = Finite False 11184811 (- 25)"
  "f_add (f_lit 1 10) (f_lit 2 10) = Finite False 10066330 (- 25)"
  "f_div (f_lit 1 1) (f_lit 255 1) = Finite False 8421505 (- 31)"
  "f_of_int 16777217 = Finite False 8388608 1"
  "f_of_int 255 = f_lit 255 1"
  "f_mul (Finite False 16777215 104) (f_lit 2 1) = Infinite False"
  "f_mul (Finite False 1 (- 149)) (f_lit 1 2) = Finite False 0 (- 149)"
  "f_sub (f_lit 1 1) (f_lit 1 1) = Finite False 0 (- 149)"
  "f_to_int (f_of_int (- 7)) = Some (- 7)"
  "f_to_int (f_div (f_of_int (- 7)) (f_lit 2 1)) = Some (- 3)"
  by code_simp+

section \<open>Byte colours: gray value, conversions, comparison\<close>

lemma byte_sum_bounds:
  "0 \<le> uint (r::8 word) + uint (g::8 word) + uint (b::8 word)
   \<and> uint r + uint g + uint b \<le> 765"
proof -
  have "uint r < 256" "uint g < 256" "uint b < 256"
    using uint_bounded [of r] uint_bounded [of g] uint_bounded [of b] by simp_all
  moreover have "0 \<le> uint r" "0 \<le> uint g" "0 \<le> uint b" by simp_all
  ultimately show ?thesis by linarith
qed

lemma gray_of_sum:
  assumes "0 \<le> S" "S \<le> 765"
  shows "uint (word_of_int ((S + 1) sdiv 3) :: 8 word) = (S + 1) sdiv 3"
    and "(S + 1) sdiv 3 = (S + 1) div 3"
    and "(S + 1) div 3 = round (real_of_int S / 3)"
    and "(S + 1) div 3 = S div 3 + (if S mod 3 = 2 then 1 else 0)"
proof -
  show sd: "(S + 1) sdiv 3 = (S + 1) div 3"
    using assms by (simp add: signed_divide_int_def sgn_if)
  have "0 \<le> (S + 1) div 3" "(S + 1) div 3 < 256" using assms by auto
  then show "uint (word_of_int ((S + 1) sdiv 3) :: 8 word) = (S + 1) sdiv 3"
    unfolding sd by (simp add: uint_word_of_int take_bit_eq_mod)
  show "(S + 1) div 3 = S div 3 + (if S mod 3 = 2 then 1 else 0)" by presburger
  have "round (real_of_int S / 3) = \<lfloor>real_of_int (2 * S + 3) / real_of_int 6\<rfloor>"
    by (simp add: round_def add_divide_distrib)
  also have "\<dots> = (2 * S + 3) div 6" by (rule floor_divide_of_int_eq)
  also have "\<dots> = (S + 1) div 3" by presburger
  finally show "(S + 1) div 3 = round (real_of_int S / 3)" by simp
qed

text \<open>
  Claim C4. For every \<open>Color24\<close> and \<open>Color32\<close> value, \<open>Gray()\<close> is \<open>(Sum()+1)/3\<close> under the
  truncating division of C++, and the cast to \<^verbatim>\<open>uint8_t\<close> loses nothing: read back as an
  integer the byte is that quotient. The quotient is the integer nearest to \<open>Sum/3\<close>: a
  remainder of 2 rounds up, a remainder of 0 or 1 rounds down. White has gray value 255.
\<close>

theorem Gray_rounds_sum:
  "uint (Color24_Gray c) = (Color24_Sum c + 1) sdiv 3
   \<and> uint (Color24_Gray c) = round (real_of_int (Color24_Sum c) / 3)
   \<and> uint (Color24_Gray c) = Color24_Sum c div 3 + (if Color24_Sum c mod 3 = 2 then 1 else 0)
   \<and> uint (Color32_Gray d) = (Color32_Sum d + 1) sdiv 3
   \<and> uint (Color32_Gray d) = round (real_of_int (Color32_Sum d) / 3)
   \<and> uint (Color32_Gray d) = Color32_Sum d div 3 + (if Color32_Sum d mod 3 = 2 then 1 else 0)
   \<and> Color24_Gray (Color24 255 255 255) = 255"
proof -
  obtain r g b where c: "c = Color24 r g b" by (cases c)
  obtain r' g' b' a' where d: "d = Color32 r' g' b' a'" by (cases d)
  have bc: "0 \<le> Color24_Sum c" "Color24_Sum c \<le> 765"
    using byte_sum_bounds [of r g b] by (simp_all add: c)
  have bd: "0 \<le> Color32_Sum d" "Color32_Sum d \<le> 765"
    using byte_sum_bounds [of r' g' b'] by (simp_all add: d)
  have w: "Color24_Gray (Color24 255 255 255) = 255"
    by (simp add: Color24_Gray_def signed_divide_int_def)
  show ?thesis
    using gray_of_sum [OF bc] gray_of_sum [OF bd] w
    by (simp add: Color24_Gray_def Color32_Gray_def)
qed

theorem Gray_rounds_sum_witness:
  "Color24_Sum (Color24 10 20 31) = 61 \<and> uint (Color24_Gray (Color24 10 20 31)) = 20
   \<and> Color32_Sum (Color32 10 20 32 7) = 62 \<and> uint (Color32_Gray (Color32 10 20 32 7)) = 21"
  using Gray_rounds_sum [of "Color24 10 20 31" "Color32 10 20 32 7"] by simp

text \<open>
  Claim C7. Converting a \<open>Color24\<close> to \<open>Color32\<close> with any alpha byte and back gives the
  original \<open>r\<close>, \<open>g\<close>, \<open>b\<close>: both constructors copy the three bytes as they are, the first
  adds the given alpha and the second drops it.
\<close>

theorem byte_conversion_roundtrip:
  "Color24_of_Color32 (Color32_of_Color24 (Color24 r g b) a) = Color24 r g b
   \<and> Color32_of_Color24 (Color24 r g b) a = Color32 r g b a
   \<and> Color24_of_Color32 (Color32 r g b a) = Color24 r g b"
  by simp

theorem byte_conversion_roundtrip_witness:
  "Color24_of_Color32 (Color32_of_Color24 (Color24 1 128 255) 7) = Color24 1 128 255"
  using byte_conversion_roundtrip [of 1 128 255 7] by simp

text \<open>
  Claim C9. For each of the four classes \<^verbatim>\<open>operator!=\<close> is the negation of \<^verbatim>\<open>operator==\<close>
  on every pair of values. A float colour with a NaN component is unequal to itself under
  both operators: \<^verbatim>\<open>!=\<close> returns true and \<^verbatim>\<open>==\<close> returns false.
\<close>

theorem ne_negates_eq:
  "Color_ne x y = (\<not> Color_eq x y)
   \<and> ColorA_ne xa ya = (\<not> ColorA_eq xa ya)
   \<and> Color24_ne x24 y24 = (\<not> Color24_eq x24 y24)
   \<and> Color32_ne x32 y32 = (\<not> Color32_eq x32 y32)
   \<and> Color_ne (Color NaN g b) (Color NaN g b)
   \<and> \<not> Color_eq (Color NaN g b) (Color NaN g b)
   \<and> ColorA_ne (ColorA r g b NaN) (ColorA r g b NaN)
   \<and> \<not> ColorA_eq (ColorA r g b NaN) (ColorA r g b NaN)"
  by (cases x; cases y; cases xa; cases ya; cases x24; cases y24; cases x32; cases y32)
     (simp add: f_ne_def f_eq_def)

theorem ne_negates_eq_witness:
  "Color24_ne (Color24 1 2 3) (Color24 1 2 4) \<and> \<not> Color24_eq (Color24 1 2 3) (Color24 1 2 4)
   \<and> \<not> Color32_ne (Color32 1 2 3 4) (Color32 1 2 3 4)
   \<and> Color32_eq (Color32 1 2 3 4) (Color32 1 2 3 4)
   \<and> Color_ne (Color NaN NaN NaN) (Color NaN NaN NaN)
   \<and> \<not> Color_eq (Color NaN NaN NaN) (Color NaN NaN NaN)"
  using ne_negates_eq [of "Color NaN NaN NaN" "Color NaN NaN NaN" "ColorA NaN NaN NaN NaN"
      "ColorA NaN NaN NaN NaN" "Color24 1 2 3" "Color24 1 2 4" "Color32 1 2 3 4"
      "Color32 1 2 3 4" NaN NaN NaN]
  by simp


section \<open>Comparisons of floats\<close>

text \<open>
  On values other than NaN the comparison is the linear order of the extended reals, with
  the two zeros equal; every comparison with a NaN is unordered.
\<close>

lemma aligned_value:
  assumes "e \<le> e1"
  shows "real_of_int (a * 2 ^ nat (e1 - e)) * 2 powi e = real_of_int a * 2 powi e1"
proof -
  define n where "n = nat (e1 - e)"
  have e1: "e1 = e + int n" using assms by (simp add: n_def)
  have "(2::real) powi (e + int n) = 2 powi e * 2 powi (int n)"
    by (rule power_int_add) simp
  then have "(2::real) powi e1 = 2 powi e * 2 ^ n"
    by (simp add: e1 power_int_of_nat)
  then show ?thesis unfolding n_def [symmetric] by simp
qed

lemma f_compare_Finite:
  "f_compare (Finite s1 m1 e1) (Finite s2 m2 e2) =
     (if f_val (Finite s1 m1 e1) < f_val (Finite s2 m2 e2) then Less
      else if f_val (Finite s1 m1 e1) = f_val (Finite s2 m2 e2) then Equal else Greater)"
proof -
  define e where "e = min e1 e2"
  define A where "A = sval s1 m1 * 2 ^ nat (e1 - e)"
  define B where "B = sval s2 m2 * 2 ^ nat (e2 - e)"
  have p: "(0::real) < 2 powi e" by (simp add: power_int_def)
  have a: "real_of_int A * 2 powi e = f_val (Finite s1 m1 e1)"
    unfolding A_def f_val_def using aligned_value [of e e1 "sval s1 m1"] by (simp add: e_def)
  have b: "real_of_int B * 2 powi e = f_val (Finite s2 m2 e2)"
    unfolding B_def f_val_def using aligned_value [of e e2 "sval s2 m2"] by (simp add: e_def)
  have lt: "(A < B) = (f_val (Finite s1 m1 e1) < f_val (Finite s2 m2 e2))"
    unfolding a [symmetric] b [symmetric] using p by simp
  have eq: "(A = B) = (f_val (Finite s1 m1 e1) = f_val (Finite s2 m2 e2))"
    unfolding a [symmetric] b [symmetric] using p by simp
  have "f_compare (Finite s1 m1 e1) (Finite s2 m2 e2) = int_rel A B"
    by (simp add: A_def B_def e_def Let_def)
  then show ?thesis by (simp add: int_rel_def lt eq)
qed

lemma f_compare_key:
  assumes "\<not> is_nan x" "\<not> is_nan y"
  shows "f_compare x y =
     (if f_rank x < f_rank y \<or> (f_rank x = f_rank y \<and> f_val x < f_val y) then Less
      else if f_rank x = f_rank y \<and> f_val x = f_val y then Equal else Greater)"
proof (cases x)
  case fx: (Finite s1 m1 e1)
  show ?thesis
  proof (cases y)
    case (Finite s2 m2 e2)
    then show ?thesis unfolding fx Finite f_compare_Finite by (simp add: f_rank_def)
  next
    case (Infinite s2)
    then show ?thesis using fx by (simp add: f_rank_def f_val_def)
  next
    case NaN
    then show ?thesis using assms by simp
  qed
next
  case ix: (Infinite s1)
  show ?thesis
  proof (cases y)
    case (Finite s2 m2 e2)
    then show ?thesis using ix by (simp add: f_rank_def f_val_def)
  next
    case (Infinite s2)
    then show ?thesis using ix by (simp add: f_rank_def f_val_def)
  next
    case NaN
    then show ?thesis using assms by simp
  qed
next
  case NaN
  then show ?thesis using assms by simp
qed

lemma f_compare_NaN [simp]: "f_compare x NaN = Unordered" "f_compare NaN y = Unordered"
  by (cases x) simp_all

lemma f_compare_Unordered: "f_compare x y = Unordered \<longleftrightarrow> is_nan x \<or> is_nan y"
  by (cases x; cases y) (simp_all add: int_rel_def Let_def)

lemma f_le_iff:
  "f_le x y \<longleftrightarrow> \<not> is_nan x \<and> \<not> is_nan y \<and>
     (f_rank x < f_rank y \<or> (f_rank x = f_rank y \<and> f_val x \<le> f_val y))"
proof (cases "is_nan x \<or> is_nan y")
  case True
  then have "f_compare x y = Unordered" by (simp add: f_compare_Unordered)
  then show ?thesis using True by (auto simp add: f_le_def)
next
  case False
  then show ?thesis using f_compare_key [of x y] by (auto simp: f_le_def)
qed

lemma f_lt_iff:
  "f_lt x y \<longleftrightarrow> \<not> is_nan x \<and> \<not> is_nan y \<and>
     (f_rank x < f_rank y \<or> (f_rank x = f_rank y \<and> f_val x < f_val y))"
proof (cases "is_nan x \<or> is_nan y")
  case True
  then have "f_compare x y = Unordered" by (simp add: f_compare_Unordered)
  then show ?thesis using True by (auto simp add: f_lt_def)
next
  case False
  then show ?thesis using f_compare_key [of x y] by (auto simp: f_lt_def)
qed

lemma f_gt_iff: "f_gt x y \<longleftrightarrow> f_lt y x"
proof (cases "is_nan x \<or> is_nan y")
  case True
  then have "f_compare x y = Unordered" "f_compare y x = Unordered"
    by (auto simp add: f_compare_Unordered)
  then show ?thesis by (simp add: f_lt_def f_gt_def)
next
  case False
  then show ?thesis using f_compare_key [of x y] f_compare_key [of y x]
    by (auto simp: f_lt_def f_gt_def)
qed

lemma f_ge_iff: "f_ge x y \<longleftrightarrow> f_le y x"
proof (cases "is_nan x \<or> is_nan y")
  case True
  then have "f_compare x y = Unordered" "f_compare y x = Unordered"
    by (auto simp add: f_compare_Unordered)
  then show ?thesis by (simp add: f_le_def f_ge_def)
next
  case False
  then show ?thesis using f_compare_key [of x y] f_compare_key [of y x]
    by (auto simp: f_le_def f_ge_def)
qed

lemma f_le_trans: "f_le x y \<Longrightarrow> f_le y z \<Longrightarrow> f_le x z"
  by (auto simp: f_le_iff)

lemma f_le_refl: "\<not> is_nan x \<Longrightarrow> f_le x x"
  by (simp add: f_le_iff)

lemma f_lt_imp_le: "f_lt x y \<Longrightarrow> f_le x y"
  by (auto simp: f_le_iff f_lt_iff)

lemma f_le_total: "\<not> is_nan x \<Longrightarrow> \<not> is_nan y \<Longrightarrow> \<not> f_lt x y \<Longrightarrow> f_le y x"
  by (auto simp: f_le_iff f_lt_iff)

section \<open>ColorA: sum, gray value, minimum and maximum\<close>

lemma min2_props:
  assumes "\<not> is_nan x" "\<not> is_nan y"
  shows "f_le (if f_lt x y then x else y) x" "f_le (if f_lt x y then x else y) y"
    "\<not> is_nan (if f_lt x y then x else y)"
  using assms f_le_refl f_lt_imp_le f_le_total by auto

lemma max2_props:
  assumes "\<not> is_nan x" "\<not> is_nan y"
  shows "f_le x (if f_gt x y then x else y)" "f_le y (if f_gt x y then x else y)"
    "\<not> is_nan (if f_gt x y then x else y)"
  using assms f_le_refl f_lt_imp_le f_le_total by (auto simp: f_gt_iff)


text \<open>
  Claim C8, as stated, at a NaN component. For \<open>ColorA(1, NaN, 2, 3)\<close> the comparison
  \<^verbatim>\<open>r<g\<close> is false, so \<open>mrg\<close> is the NaN, \<^verbatim>\<open>mrg<mba\<close> is false again and \<open>Min()\<close> returns
  \<open>mba = 2\<close>, although the component \<open>r = 1\<close> is smaller.
\<close>

theorem ColorA_Min_NaN_counterexample:
  "ColorA_Min (ColorA (f_lit 1 1) NaN (f_lit 2 1) (f_lit 3 1)) = f_lit 2 1
   \<and> f_lt (f_lit 1 1) (f_lit 2 1)
   \<and> \<not> f_le (ColorA_Min (ColorA (f_lit 1 1) NaN (f_lit 2 1) (f_lit 3 1))) (f_lit 1 1)"
  by code_simp


text \<open>
  Claim C8, amended. \<open>Sum()\<close> is \<open>r+g+b\<close> and \<open>Gray()\<close> is that sum divided by \<open>3.0f\<close>;
  alpha enters neither. When no component is NaN, \<open>Min()\<close> and \<open>Max()\<close> are one of the
  four stored components \<open>r\<close>, \<open>g\<close>, \<open>b\<close>, \<open>a\<close>, at most respectively at least each of them.
\<close>

theorem ColorA_queries:
  "ColorA_Sum (ColorA r g b a) = f_add (f_add r g) b
   \<and> ColorA_Gray (ColorA r g b a) = f_div (f_add (f_add r g) b) (f_lit 3 1)
   \<and> (\<not> is_nan r \<and> \<not> is_nan g \<and> \<not> is_nan b \<and> \<not> is_nan a \<longrightarrow>
        ColorA_Min (ColorA r g b a) \<in> {r, g, b, a}
        \<and> f_le (ColorA_Min (ColorA r g b a)) r \<and> f_le (ColorA_Min (ColorA r g b a)) g
        \<and> f_le (ColorA_Min (ColorA r g b a)) b \<and> f_le (ColorA_Min (ColorA r g b a)) a
        \<and> ColorA_Max (ColorA r g b a) \<in> {r, g, b, a}
        \<and> f_le r (ColorA_Max (ColorA r g b a)) \<and> f_le g (ColorA_Max (ColorA r g b a))
        \<and> f_le b (ColorA_Max (ColorA r g b a)) \<and> f_le a (ColorA_Max (ColorA r g b a)))"
proof -
  have sum: "ColorA_Sum (ColorA r g b a) = f_add (f_add r g) b" by simp
  have gray: "ColorA_Gray (ColorA r g b a) = f_div (f_add (f_add r g) b) (f_lit 3 1)"
    by (simp add: ColorA_Gray_def)
  have mm: "ColorA_Min (ColorA r g b a) \<in> {r, g, b, a}
        \<and> f_le (ColorA_Min (ColorA r g b a)) r \<and> f_le (ColorA_Min (ColorA r g b a)) g
        \<and> f_le (ColorA_Min (ColorA r g b a)) b \<and> f_le (ColorA_Min (ColorA r g b a)) a
        \<and> ColorA_Max (ColorA r g b a) \<in> {r, g, b, a}
        \<and> f_le r (ColorA_Max (ColorA r g b a)) \<and> f_le g (ColorA_Max (ColorA r g b a))
        \<and> f_le b (ColorA_Max (ColorA r g b a)) \<and> f_le a (ColorA_Max (ColorA r g b a))"
    if n: "\<not> is_nan r" "\<not> is_nan g" "\<not> is_nan b" "\<not> is_nan a"
  proof -
    define mrg where "mrg = (if f_lt r g then r else g)"
    define mba where "mba = (if f_lt b a then b else a)"
    define m where "m = (if f_lt mrg mba then mrg else mba)"
    define Mrg where "Mrg = (if f_gt r g then r else g)"
    define Mba where "Mba = (if f_gt b a then b else a)"
    define M where "M = (if f_gt Mrg Mba then Mrg else Mba)"
    have 1: "f_le mrg r" "f_le mrg g" "\<not> is_nan mrg"
      unfolding mrg_def using min2_props [OF n(1) n(2)] by blast+
    have 2: "f_le mba b" "f_le mba a" "\<not> is_nan mba"
      unfolding mba_def using min2_props [OF n(3) n(4)] by blast+
    have 3: "f_le m mrg" "f_le m mba"
      unfolding m_def using min2_props [OF 1(3) 2(3)] by blast+
    have 4: "f_le r Mrg" "f_le g Mrg" "\<not> is_nan Mrg"
      unfolding Mrg_def using max2_props [OF n(1) n(2)] by blast+
    have 5: "f_le b Mba" "f_le a Mba" "\<not> is_nan Mba"
      unfolding Mba_def using max2_props [OF n(3) n(4)] by blast+
    have 6: "f_le Mrg M" "f_le Mba M"
      unfolding M_def using max2_props [OF 4(3) 5(3)] by blast+
    have mem: "m \<in> {r, g, b, a}" "M \<in> {r, g, b, a}"
      by (auto simp: m_def mrg_def mba_def M_def Mrg_def Mba_def)
    have le: "f_le m r" "f_le m g" "f_le m b" "f_le m a"
      using 1 2 3 f_le_trans by blast+
    have ge: "f_le r M" "f_le g M" "f_le b M" "f_le a M"
      using 4 5 6 f_le_trans by blast+
    have "ColorA_Min (ColorA r g b a) = m"
      by (simp add: m_def mrg_def mba_def Let_def)
    moreover have "ColorA_Max (ColorA r g b a) = M"
      by (simp add: M_def Mrg_def Mba_def Let_def)
    ultimately show ?thesis using mem le ge by simp
  qed
  show ?thesis using sum gray mm by blast
qed

theorem ColorA_queries_witness:
  "ColorA_Min (ColorA (f_lit 3 1) (f_lit 1 2) (f_lit 2 1) (f_lit 1 4)) = f_lit 1 4
  \<and> ColorA_Max (ColorA (f_lit 3 1) (f_lit 1 2) (f_lit 2 1) (f_lit 1 4)) = f_lit 3 1
  \<and> f_le (ColorA_Min (ColorA (f_lit 3 1) (f_lit 1 2) (f_lit 2 1) (f_lit 1 4))) (f_lit 2 1)"
proof -
  have n: "\<not> is_nan (f_lit 3 1)" "\<not> is_nan (f_lit 1 2)" "\<not> is_nan (f_lit 2 1)" "\<not> is_nan (f_lit 1 4)"
    by code_simp+
  have v: "ColorA_Min (ColorA (f_lit 3 1) (f_lit 1 2) (f_lit 2 1) (f_lit 1 4)) = f_lit 1 4"
    "ColorA_Max (ColorA (f_lit 3 1) (f_lit 1 2) (f_lit 2 1) (f_lit 1 4)) = f_lit 3 1"
    by code_simp+
  show ?thesis using ColorA_queries [of "f_lit 3 1" "f_lit 1 2" "f_lit 2 1" "f_lit 1 4"] n v
    by simp
qed

section \<open>ColorA: clamping\<close>

lemma cyMax_bounds:
  assumes "\<not> is_nan lo"
  shows "f_le lo (cyMax v lo)"
proof (cases "f_ge v lo")
  case True
  then show ?thesis by (simp add: cyMax_def f_ge_iff)
next
  case False
  then show ?thesis using assms by (simp add: cyMax_def f_le_refl)
qed

lemma cyMin_bounds:
  assumes "f_le lo w" "f_le lo hi"
  shows "f_le lo (cyMin w hi)" "f_le (cyMin w hi) hi"
  using assms by (auto simp: cyMin_def f_le_iff)

lemma spec_clamp_bounds:
  assumes "f_le lo hi"
  shows "f_le lo (spec_clamp lo hi v) \<and> f_le (spec_clamp lo hi v) hi"
proof -
  have "\<not> is_nan lo" using assms by (simp add: f_le_iff)
  then have "f_le lo (cyMax v lo)" by (rule cyMax_bounds)
  then show ?thesis unfolding spec_clamp_def using cyMin_bounds assms by blast
qed

text \<open>
  What the three methods do on every \<open>ColorA\<close>: \<open>ClampMin\<close> replaces each of \<open>r\<close>, \<open>g\<close>, \<open>b\<close>
  by its max against the bound and \<open>ClampMax\<close> by its min, \<open>Clamp\<close> does the first and then
  the second, and for bounds \<open>limitMin <= limitMax\<close> the three end within the bounds. The
  alpha component is returned as it was.
\<close>

lemma ColorA_Clamp_components:
  "ColorA_ClampMin limitMin (ColorA r g b a) =
     ColorA (cyMax r limitMin) (cyMax g limitMin) (cyMax b limitMin) a"
  "ColorA_ClampMax limitMax (ColorA r g b a) =
     ColorA (cyMin r limitMax) (cyMin g limitMax) (cyMin b limitMax) a"
  "ColorA_Clamp limitMin limitMax (ColorA r g b a) =
     ColorA (spec_clamp limitMin limitMax r) (spec_clamp limitMin limitMax g)
       (spec_clamp limitMin limitMax b) a"
  "f_le limitMin limitMax \<Longrightarrow>
     f_le limitMin (spec_clamp limitMin limitMax v) \<and> f_le (spec_clamp limitMin limitMax v) limitMax"
  using spec_clamp_bounds
  by (simp_all add: ColorA_Clamp_def ColorA_ClampMin_def ColorA_ClampMax_def spec_clamp_def)

text \<open>
  Claim C3. After \<open>Clamp\<close> with bounds \<open>limitMin <= limitMax\<close> every stored component of a
  \<open>ColorA\<close>, alpha included, is to lie within the bounds. The code does not do that for
  alpha: \<open>Apply\<close> assigns \<open>r\<close>, \<open>g\<close> and \<open>b\<close> only, so \<open>ColorA(0.5, 0.5, 0.5, 2).Clamp(0, 1)\<close>
  keeps its alpha of \<open>2\<close>, which is above the upper bound, while \<open>r\<close>, \<open>g\<close>, \<open>b\<close> of
  \<open>ColorA(-1, 0.5, 2, 2)\<close> are clamped to \<open>0\<close>, \<open>0.5\<close>, \<open>1\<close>. The byte class does clamp its
  alpha: \<open>Color32(10, 20, 30, 255).Clamp(0, 128)\<close> ends with alpha \<open>128\<close>.
\<close>

theorem ColorA_Clamp_alpha_unclamped:
  "f_le (f_lit 0 1) (f_lit 1 1)
   \<and> ColorA_Clamp (f_lit 0 1) (f_lit 1 1) (ColorA (f_lit 1 2) (f_lit 1 2) (f_lit 1 2) (f_lit 2 1))
       = ColorA (f_lit 1 2) (f_lit 1 2) (f_lit 1 2) (f_lit 2 1)
   \<and> \<not> f_le (f_lit 2 1) (f_lit 1 1)
   \<and> ColorA_Clamp (f_lit 0 1) (f_lit 1 1) (ColorA (f_of_int (- 1)) (f_lit 1 2) (f_lit 2 1) (f_lit 2 1))
       = ColorA (f_lit 0 1) (f_lit 1 2) (f_lit 1 1) (f_lit 2 1)
   \<and> Color32_Clamp 0 128 (Color32 10 20 30 255) = Color32 10 20 30 128"
  by code_simp


section \<open>Operators with the scalar on the left\<close>

lemma sval_not: "sval (\<not> s) m = - sval s m"
  by (simp add: sval_def)

lemma f_neg_fround: "f_neg (fround s M E) = fround (\<not> s) M E"
  by (simp add: fround_def Let_def)

lemma f_add_commute: "f_add x y = f_add y x"
  by (cases x; cases y) (auto simp: Let_def min.commute add.commute conj_commute)

lemma f_mul_commute: "f_mul x y = f_mul y x"
proof -
  have "(s1 \<noteq> s2) = (s2 \<noteq> s1)" for s1 s2 :: bool by auto
  then show ?thesis
    by (cases x; cases y) (simp_all add: mult.commute add.commute)
qed

text \<open>
  The negated difference \<open>-(x - v)\<close> against \<open>v - x\<close>: the same value, except that an
  exact zero difference comes out as \<open>-0.0\<close> in the first and \<open>+0.0\<close> in the second.
\<close>

lemma f_neg_sub_swap:
  "f_neg (f_sub x v) = f_sub v x
   \<or> (f_neg (f_sub x v) = Finite True 0 (- 149) \<and> f_sub v x = Finite False 0 (- 149))"
proof (cases x)
  case fx: (Finite s1 m1 e1)
  show ?thesis
  proof (cases v)
    case fv: (Finite s2 m2 e2)
    define e where "e = min e1 e2"
    define S where "S = sval s1 m1 * 2 ^ nat (e1 - e) + sval (\<not> s2) m2 * 2 ^ nat (e2 - e)"
    define T where "T = sval s2 m2 * 2 ^ nat (e2 - e) + sval (\<not> s1) m1 * 2 ^ nat (e1 - e)"
    have TS: "T = - S" by (simp add: T_def S_def sval_not)
    have a: "f_sub x v = (if S = 0 then Finite (s1 \<and> \<not> s2) 0 (- 149) else fround (S < 0) \<bar>S\<bar> e)"
      by (simp add: fx fv f_sub_def Let_def S_def e_def)
    have b: "f_sub v x = (if T = 0 then Finite (s2 \<and> \<not> s1) 0 (- 149) else fround (T < 0) \<bar>T\<bar> e)"
      by (simp add: fx fv f_sub_def Let_def T_def e_def min.commute)
    show ?thesis
    proof (cases "S = 0")
      case True
      then show ?thesis unfolding a b TS by auto
    next
      case False
      then have "(\<not> S < 0) = (- S < 0)" by auto
      then show ?thesis unfolding a b TS using False by (simp add: f_neg_fround)
    qed
  next
    case (Infinite s2)
    then show ?thesis using fx by (simp add: f_sub_def)
  next
    case NaN
    then show ?thesis using fx by (simp add: f_sub_def)
  qed
next
  case ix: (Infinite s1)
  show ?thesis by (cases v) (auto simp: ix f_sub_def)
next
  case NaN
  then show ?thesis by (cases v) (auto simp: f_sub_def)
qed

lemma f_neg_sub_swap_eq:
  "is_nan (f_sub v x) \<or> f_eq (f_neg (f_sub x v)) (f_sub v x)"
proof (cases "is_nan (f_sub v x)")
  case True
  then show ?thesis by simp
next
  case False
  have z: "f_eq (Finite True 0 (- 149)) (Finite False 0 (- 149))"
    by (simp add: f_eq_def int_rel_def sval_def)
  have r: "f_eq y y" if "\<not> is_nan y" for y
    using that by (cases y) (simp_all add: f_eq_def int_rel_def Let_def)
  from f_neg_sub_swap [of x v] show ?thesis
  proof
    assume "f_neg (f_sub x v) = f_sub v x"
    then show ?thesis using r [OF False] by simp
  next
    assume "f_neg (f_sub x v) = Finite True 0 (- 149) \<and> f_sub v x = Finite False 0 (- 149)"
    then show ?thesis using z by simp
  qed
qed

text \<open>
  Claim C5, as stated, at the division. A \<^verbatim>\<open>float\<close> on the left of a \<open>Color\<close> or \<open>ColorA\<close>
  has the operators \<^verbatim>\<open>+\<close>, \<^verbatim>\<open>-\<close> and \<^verbatim>\<open>*\<close>; for \<^verbatim>\<open>/\<close> there is none.
\<close>

theorem scalar_left_division_counterexample:
  "float_Color_operator Divide = None \<and> float_ColorA_operator Divide = None"
  by simp


text \<open>
  Claim C5, amended. For every float \<open>v\<close> and every \<open>Color\<close> and \<open>ColorA\<close> value the
  operators \<^verbatim>\<open>+\<close>, \<^verbatim>\<open>-\<close> and \<^verbatim>\<open>*\<close> exist with the scalar on the left, and no other.
  \<open>v+c\<close> has the components \<open>v+c_i\<close> and \<open>v*c\<close> the components \<open>v*c_i\<close>. \<open>v-c\<close> has the
  components \<open>-(c_i-v)\<close>: the value \<open>v-c_i\<close>, except that it is \<open>-0.0\<close> where \<open>v-c_i\<close> is
  \<open>+0.0\<close>, so the two compare equal under \<^verbatim>\<open>==\<close> unless they are NaN. Multiplication by
  a scalar gives the same colour from either side, and
  \<open>2.0f * Color(1,2,3) == Color(1,2,3) * 2.0f == Color(2,4,6)\<close>.
\<close>

theorem scalar_left_operators:
  "(\<forall>op. (\<exists>f. float_Color_operator op = Some f) = (op \<in> {Plus, Minus, Times}))
   \<and> (\<forall>op. (\<exists>f. float_ColorA_operator op = Some f) = (op \<in> {Plus, Minus, Times}))
   \<and> f_add_Color v (Color r g b) = Color (f_add v r) (f_add v g) (f_add v b)
   \<and> f_mul_Color v (Color r g b) = Color (f_mul v r) (f_mul v g) (f_mul v b)
   \<and> f_sub_Color v (Color r g b) = Color (f_neg (f_sub r v)) (f_neg (f_sub g v)) (f_neg (f_sub b v))
   \<and> f_add_ColorA v (ColorA r g b a) = ColorA (f_add v r) (f_add v g) (f_add v b) (f_add v a)
   \<and> f_mul_ColorA v (ColorA r g b a) = ColorA (f_mul v r) (f_mul v g) (f_mul v b) (f_mul v a)
   \<and> f_sub_ColorA v (ColorA r g b a) =
       ColorA (f_neg (f_sub r v)) (f_neg (f_sub g v)) (f_neg (f_sub b v)) (f_neg (f_sub a v))
   \<and> (\<forall>x. f_neg (f_sub x v) = f_sub v x
          \<or> (f_neg (f_sub x v) = Finite True 0 (- 149) \<and> f_sub v x = Finite False 0 (- 149)))
   \<and> (\<forall>x. is_nan (f_sub v x) \<or> f_eq (f_neg (f_sub x v)) (f_sub v x))
   \<and> f_mul_Color v c = Color_mul_f c v
   \<and> f_mul_ColorA v d = ColorA_mul_f d v
   \<and> Color_eq (f_mul_Color (f_lit 2 1) (Color (f_lit 1 1) (f_lit 2 1) (f_lit 3 1)))
        (Color_mul_f (Color (f_lit 1 1) (f_lit 2 1) (f_lit 3 1)) (f_lit 2 1))
   \<and> Color_eq (Color_mul_f (Color (f_lit 1 1) (f_lit 2 1) (f_lit 3 1)) (f_lit 2 1))
        (Color (f_lit 2 1) (f_lit 4 1) (f_lit 6 1))"
proof -
  have t1: "\<forall>op. (\<exists>f. float_Color_operator op = Some f) = (op \<in> {Plus, Minus, Times})"
  proof
    fix op show "(\<exists>f. float_Color_operator op = Some f) = (op \<in> {Plus, Minus, Times})"
      by (cases op) simp_all
  qed
  have t2: "\<forall>op. (\<exists>f. float_ColorA_operator op = Some f) = (op \<in> {Plus, Minus, Times})"
  proof
    fix op show "(\<exists>f. float_ColorA_operator op = Some f) = (op \<in> {Plus, Minus, Times})"
      by (cases op) simp_all
  qed
  have c: "f_add_Color v (Color r g b) = Color (f_add v r) (f_add v g) (f_add v b)"
    "f_mul_Color v (Color r g b) = Color (f_mul v r) (f_mul v g) (f_mul v b)"
    "f_sub_Color v (Color r g b) = Color (f_neg (f_sub r v)) (f_neg (f_sub g v)) (f_neg (f_sub b v))"
    by (simp_all add: f_add_Color_def f_mul_Color_def f_sub_Color_def
        f_add_commute [of v] f_mul_commute [of v])
  have ca: "f_add_ColorA v (ColorA r g b a) = ColorA (f_add v r) (f_add v g) (f_add v b) (f_add v a)"
    "f_mul_ColorA v (ColorA r g b a) = ColorA (f_mul v r) (f_mul v g) (f_mul v b) (f_mul v a)"
    "f_sub_ColorA v (ColorA r g b a) =
       ColorA (f_neg (f_sub r v)) (f_neg (f_sub g v)) (f_neg (f_sub b v)) (f_neg (f_sub a v))"
    by (simp_all add: f_add_ColorA_def f_mul_ColorA_def f_sub_ColorA_def
        f_add_commute [of v] f_mul_commute [of v])
  have s: "\<forall>x. f_neg (f_sub x v) = f_sub v x
          \<or> (f_neg (f_sub x v) = Finite True 0 (- 149) \<and> f_sub v x = Finite False 0 (- 149))"
    "\<forall>x. is_nan (f_sub v x) \<or> f_eq (f_neg (f_sub x v)) (f_sub v x)"
    using f_neg_sub_swap f_neg_sub_swap_eq by blast+
  have m: "f_mul_Color v c = Color_mul_f c v" "f_mul_ColorA v d = ColorA_mul_f d v"
    by (simp_all add: f_mul_Color_def f_mul_ColorA_def)
  have e: "Color_eq (f_mul_Color (f_lit 2 1) (Color (f_lit 1 1) (f_lit 2 1) (f_lit 3 1)))
        (Color_mul_f (Color (f_lit 1 1) (f_lit 2 1) (f_lit 3 1)) (f_lit 2 1))"
    "Color_eq (Color_mul_f (Color (f_lit 1 1) (f_lit 2 1) (f_lit 3 1)) (f_lit 2 1))
        (Color (f_lit 2 1) (f_lit 4 1) (f_lit 6 1))"
    by code_simp+
  show ?thesis using t1 t2 c ca s m e by blast
qed

theorem scalar_left_operators_witness:
  "f_sub_Color (f_lit 5 1) (Color (f_lit 1 1) (f_lit 2 1) (f_lit 5 1))
     = Color (f_lit 4 1) (f_lit 3 1) (Finite True 0 (- 149))
   \<and> f_sub (f_lit 5 1) (f_lit 5 1) = Finite False 0 (- 149)
   \<and> f_eq (Finite True 0 (- 149)) (f_sub (f_lit 5 1) (f_lit 5 1))
   \<and> (\<exists>f. float_Color_operator Minus = Some f)"
proof -
  have v: "f_neg (f_sub (f_lit 1 1) (f_lit 5 1)) = f_lit 4 1"
    "f_neg (f_sub (f_lit 2 1) (f_lit 5 1)) = f_lit 3 1"
    "f_neg (f_sub (f_lit 5 1) (f_lit 5 1)) = Finite True 0 (- 149)"
    "f_sub (f_lit 5 1) (f_lit 5 1) = Finite False 0 (- 149)"
    "\<not> is_nan (Finite False 0 (- 149))"
    by code_simp+
  note t = scalar_left_operators [of "f_lit 5 1" "f_lit 1 1" "f_lit 2 1" "f_lit 5 1"]
  from t have a: "f_sub_Color (f_lit 5 1) (Color (f_lit 1 1) (f_lit 2 1) (f_lit 5 1))
     = Color (f_neg (f_sub (f_lit 1 1) (f_lit 5 1))) (f_neg (f_sub (f_lit 2 1) (f_lit 5 1)))
         (f_neg (f_sub (f_lit 5 1) (f_lit 5 1)))"
    by blast
  from t have "is_nan (f_sub (f_lit 5 1) (f_lit 5 1))
      \<or> f_eq (f_neg (f_sub (f_lit 5 1) (f_lit 5 1))) (f_sub (f_lit 5 1) (f_lit 5 1))"
    by blast
  then have b: "f_eq (Finite True 0 (- 149)) (f_sub (f_lit 5 1) (f_lit 5 1))"
    using v by simp
  from t have c: "(\<exists>f. float_Color_operator Minus = Some f)" by blast
  show ?thesis using a b c v by simp
qed


section \<open>Conversions between bytes and floats\<close>

text \<open>
  A property of all 256 bytes is checked on the list of their values; the two lists below
  run the division by \<open>255.0f\<close>, and the way back through \<open>FloatToByte\<close>, on each of them.
\<close>

lemma all_bytes:
  assumes "list_all P [0..255]"
  shows "P (uint (b::8 word))"
proof -
  have "uint b < 256" using uint_bounded [of b] by simp
  then have "uint b \<in> set [0..255]" by simp
  then show ?thesis using assms by (simp add: list_all_iff)
qed

lemma bytes_roundtrip:
  "list_all (\<lambda>n. f_to_int (f_add (f_mul (f_div (f_of_int n) (f_lit 255 1)) (f_of_int 255))
      (f_lit 1 2)) = Some n) [0..255]"
  by code_simp

lemma bytes_unit:
  "list_all (\<lambda>n. unit_float (f_div (f_of_int n) (f_lit 255 1))) [0..255]"
  by code_simp

lemma ClampInt_byte: "Color24_ClampInt (uint (b::8 word)) = b" "Color32_ClampInt (uint b) = b"
  using uint_bounded [of b] by (simp_all add: Color24_ClampInt_def Color32_ClampInt_def)

lemma FloatToByte_of_byte:
  "Color24_FloatToByte (f_div (f_of_int (uint b)) (f_lit 255 1)) = Some b"
  "Color32_FloatToByte (f_div (f_of_int (uint b)) (f_lit 255 1)) = Some b"
  using all_bytes [OF bytes_roundtrip, of b]
  by (simp_all add: Color24_FloatToByte_def Color32_FloatToByte_def ClampInt_byte)

text \<open>
  Claim C1. \<open>FloatToByte\<close> of \<open>Color24\<close> and of \<open>Color32\<close> are the same function: wherever
  the conversion of \<open>f*255+0.5f\<close> to \<^verbatim>\<open>int\<close> is defined, the result is that truncated value
  clamped into 0 to 255, and \<open>2.0f\<close> gives 255. The conversion to \<^verbatim>\<open>int\<close> comes before the
  clamp, though, and it is undefined for \<open>1e10f\<close>, for infinity and for NaN: on these
  inputs \<open>FloatToByte\<close> and the constructors built on it return no value.
\<close>

theorem FloatToByte_policy:
  "Color24_FloatToByte f =
     map_option (\<lambda>t. word_of_int (max 0 (min 255 t)))
       (f_to_int (f_add (f_mul f (f_of_int 255)) (f_lit 1 2)))
   \<and> Color32_FloatToByte f = Color24_FloatToByte f
   \<and> Color24_FloatToByte (f_lit 2 1) = Some 255
   \<and> Color24_FloatToByte (f_lit 10000000000 1) = None
   \<and> Color24_FloatToByte (Infinite False) = None
   \<and> Color24_FloatToByte NaN = None
   \<and> Color24_of_Color (Color (f_lit 10000000000 1) (f_lit 0 1) (f_lit 0 1)) = None
   \<and> Color32_of_ColorA (ColorA (f_lit 2 1) (f_lit 2 1) (f_lit 2 1) (f_lit 2 1))
       = Some (Color32 255 255 255 255)"
proof -
  have c: "Color24_ClampInt = (\<lambda>t. word_of_int (max 0 (min 255 t)))"
    by (rule ext) (simp add: Color24_ClampInt_def max_def min_def)
  have c32: "Color32_ClampInt = Color24_ClampInt"
    by (rule ext) (simp add: Color24_ClampInt_def Color32_ClampInt_def)
  have e: "Color24_FloatToByte (f_lit 2 1) = Some 255"
    "Color24_FloatToByte (f_lit 10000000000 1) = None"
    "Color24_FloatToByte (Infinite False) = None"
    "Color24_FloatToByte NaN = None"
    "Color24_of_Color (Color (f_lit 10000000000 1) (f_lit 0 1) (f_lit 0 1)) = None"
    "Color32_of_ColorA (ColorA (f_lit 2 1) (f_lit 2 1) (f_lit 2 1) (f_lit 2 1))
       = Some (Color32 255 255 255 255)"
    by code_simp+
  show ?thesis using e by (simp add: Color24_FloatToByte_def Color32_FloatToByte_def c c32)
qed

text \<open>
  Claim C2. Every byte \<open>b\<close> survives the way to \<^verbatim>\<open>float\<close> and back: \<open>FloatToByte\<close> of
  \<open>b/255.0f\<close> is \<open>b\<close>, for both classes, and so a \<open>Color24\<close> converted by \<open>ToColor\<close> and a
  \<open>Color32\<close> converted by \<open>ToColorA\<close> are recovered by the constructors from the float
  colours.
\<close>

theorem byte_float_roundtrip:
  "Color24_FloatToByte (f_div (f_of_int (uint b)) (f_lit 255 1)) = Some b
   \<and> Color32_FloatToByte (f_div (f_of_int (uint b)) (f_lit 255 1)) = Some b
   \<and> Color24_of_Color (Color24_ToColor c) = Some c
   \<and> Color32_of_ColorA (Color32_ToColorA d) = Some d"
  by (cases c; cases d) (simp add: FloatToByte_of_byte)

theorem byte_float_roundtrip_witness:
  "Color24_FloatToByte (f_div (f_of_int 127) (f_lit 255 1)) = Some 127
   \<and> Color24_of_Color (Color24_ToColor (Color24 0 1 254)) = Some (Color24 0 1 254)"
  using byte_float_roundtrip [of 127 "Color24 0 1 254"] by simp

text \<open>
  Claim C10. Every component of \<open>ToColor()\<close> and \<open>ToColorA()\<close> of a \<open>Color24\<close> or \<open>Color32\<close>,
  the converted alpha of \<open>Color32\<close> and the constant alpha of \<open>Color24\<close> included, is finite
  and lies between \<open>0.0f\<close> and \<open>1.0f\<close>.
\<close>

theorem byte_to_float_unit:
  "Color_all unit_float (Color24_ToColor c) \<and> ColorA_all unit_float (Color24_ToColorA c)
   \<and> Color_all unit_float (Color32_ToColor d) \<and> ColorA_all unit_float (Color32_ToColorA d)"
proof -
  have one: "unit_float (f_lit 1 1)" by code_simp
  show ?thesis
    by (cases c; cases d) (simp add: all_bytes [OF bytes_unit] one)
qed

theorem byte_to_float_unit_witness:
  "ColorA_all unit_float (Color32_ToColorA (Color32 0 1 254 255))"
  using byte_to_float_unit [of "Color24 0 0 0" "Color32 0 1 254 255"] by simp

section \<open>The sRGB transfer functions\<close>

text \<open>
  Claim C6. \<open>Linear2sRGB\<close> and \<open>sRGB2Linear\<close> apply the transfer function of the
  specification to each of \<open>r\<close>, \<open>g\<close>, \<open>b\<close>, whatever \<^verbatim>\<open>powf\<close> computes; the \<open>ColorA\<close>
  versions return the alpha they were given.
\<close>

theorem sRGB_transfer:
  "Color_Linear2sRGB pw (Color r g b) =
     Color (spec_Linear2sRGB_channel pw r) (spec_Linear2sRGB_channel pw g)
       (spec_Linear2sRGB_channel pw b)
   \<and> Color_sRGB2Linear pw (Color r g b) =
     Color (spec_sRGB2Linear_channel pw r) (spec_sRGB2Linear_channel pw g)
       (spec_sRGB2Linear_channel pw b)
   \<and> ColorA_Linear2sRGB pw (ColorA r g b a) =
     ColorA (spec_Linear2sRGB_channel pw r) (spec_Linear2sRGB_channel pw g)
       (spec_Linear2sRGB_channel pw b) a
   \<and> ColorA_sRGB2Linear pw (ColorA r g b a) =
     ColorA (spec_sRGB2Linear_channel pw r) (spec_sRGB2Linear_channel pw g)
       (spec_sRGB2Linear_channel pw b) a"
  by (simp add: spec_Linear2sRGB_channel_def spec_sRGB2Linear_channel_def Let_def)

theorem sRGB_transfer_witness:
  "ColorA_Linear2sRGB (\<lambda>x y. x) (ColorA (f_lit 1 1000) (f_lit 2 1000) (f_lit 3 1000) (f_lit 1 2))
     = ColorA (f_mul (f_lit 1 1000) (f_lit 1292 100)) (f_mul (f_lit 2 1000) (f_lit 1292 100))
         (f_mul (f_lit 3 1000) (f_lit 1292 100)) (f_lit 1 2)"
proof -
  have v: "spec_Linear2sRGB_channel (\<lambda>x y. x) (f_lit 1 1000) = f_mul (f_lit 1 1000) (f_lit 1292 100)"
    "spec_Linear2sRGB_channel (\<lambda>x y. x) (f_lit 2 1000) = f_mul (f_lit 2 1000) (f_lit 1292 100)"
    "spec_Linear2sRGB_channel (\<lambda>x y. x) (f_lit 3 1000) = f_mul (f_lit 3 1000) (f_lit 1292 100)"
    by code_simp+
  show ?thesis
    using sRGB_transfer [of "\<lambda>x y. x" "f_lit 1 1000" "f_lit 2 1000" "f_lit 3 1000" "f_lit 1 2"]
    by (simp only: v)
qed

end
